theory Spec2Isabelle
  imports Complex_Main "HOL-Library.AList"
begin

section \<open>Data model of \<open>WorldcoinTelegramBot\<close>\<close>

text \<open>
  The bot keeps two pieces of mutable state: the dictionary \<open>tracking_users\<close> and the
  list \<open>price_history\<close>. Prices are Python numbers (the JSON number of the feed, passed
  through \<open>float\<close>); they are modelled as exact rationals, so \<open>float(x)\<close> is the identity
  and comparisons and arithmetic are those of the rationals. A Python \<open>dict\<close> keeps its
  keys unique and in insertion order: it is an association list, read with \<open>map_of\<close>,
  written with \<open>AList.update\<close> (replace in place, or append a new key at the end) and
  \<open>AList.delete\<close>.
\<close>

type_synonym user_id = int
type_synonym price = rat

record alert =
  target :: price
  triggered :: bool

record user_data =
  tracking :: bool
  last_notification_price :: int
  alerts :: "alert list"

record bot =
  tracking_users :: "(user_id \<times> user_data) list"
  price_history :: "price list"

text \<open>The exceptions that the modelled methods can raise.\<close>

datatype py_error = TypeError | ZeroDivisionError

text \<open>
  The texts the bot produces are f-strings; each is modelled by a constructor that
  carries the interpolated values: the increase notification of the poll loop with the
  current price, and the target alert with the current price and the alert's target.
\<close>

datatype message =
  IncreaseAlert price
| TargetReached price price



definition init_bot :: bot where
  "init_bot = \<lparr>tracking_users = [], price_history = []\<rparr>"

text \<open>\<open>user_id in self.tracking_users\<close>.\<close>

definition tracked :: "bot \<Rightarrow> user_id \<Rightarrow> bool" where
  "tracked st user = (map_of (tracking_users st) user \<noteq> None)"

text \<open>
  Python's \<open>int(x)\<close> on a number truncates towards zero: \<open>int(11.5) = 11\<close> and
  \<open>int(-0.5) = 0\<close>.
\<close>

definition python_int :: "price \<Rightarrow> int" where
  "python_int x = (if 0 \<le> x then \<lfloor>x\<rfloor> else \<lceil>x\<rceil>)"

section \<open>Price history\<close>

text \<open>
  Lines 189 to 191 of \<open>continuous_price_check\<close>: append, then \<open>pop(0)\<close> once the
  list is longer than 24.
\<close>

definition update_history :: "price \<Rightarrow> price list \<Rightarrow> price list" where
  "update_history current_price h =
     (let h1 = h @ [current_price] in if length h1 > 24 then tl h1 else h1)"





section \<open>Alert registry\<close>

text \<open>
  \<open>set_price_alert\<close>. The first argument is what \<open>get_worldcoin_price\<close> returns if it is
  called: \<open>None\<close> for every failure of the fetch. For a user without a record the method
  evaluates \<open>int(self.get_worldcoin_price())\<close> with no test for \<open>None\<close>, and \<open>int(None)\<close>
  raises \<open>TypeError\<close> before the record is stored.
\<close>

definition new_alert :: "price \<Rightarrow> alert" where
  "new_alert target_price = \<lparr>target = target_price, triggered = False\<rparr>"

definition append_alert :: "user_id \<Rightarrow> price \<Rightarrow> bot \<Rightarrow> bot" where
  "append_alert user target_price st =
     (case map_of (tracking_users st) user of
        None \<Rightarrow> st
      | Some ud \<Rightarrow>
          st\<lparr>tracking_users :=
               AList.update user (ud\<lparr>alerts := alerts ud @ [new_alert target_price]\<rparr>)
                 (tracking_users st)\<rparr>)"

definition set_price_alert :: "price option \<Rightarrow> user_id \<Rightarrow> price \<Rightarrow> bot \<Rightarrow> py_error + bot" where
  "set_price_alert fetched user target_price st =
     (if \<not> tracked st user then
        (case fetched of
           None \<Rightarrow> Inl TypeError
         | Some p \<Rightarrow>
             Inr (append_alert user target_price
                   (st\<lparr>tracking_users :=
                         AList.update user
                           \<lparr>tracking = True, last_notification_price = python_int p,
                            alerts = []\<rparr>
                           (tracking_users st)\<rparr>)))
      else Inr (append_alert user target_price st))"

text \<open>
  The loop of \<open>check_price_alerts\<close> over the alerts of one user: the messages in the
  order of the list, and the list with the alerts that fired marked.
\<close>

fun check_alerts :: "price \<Rightarrow> alert list \<Rightarrow> message list \<times> alert list" where
  "check_alerts current_price [] = ([], [])"
| "check_alerts current_price (a # as) =
     (let (msgs, as') = check_alerts current_price as in
      if \<not> triggered a \<and> current_price \<ge> target a
      then (TargetReached current_price (target a) # msgs, a\<lparr>triggered := True\<rparr> # as')
      else (msgs, a # as'))"

definition check_price_alerts :: "user_id \<Rightarrow> price \<Rightarrow> bot \<Rightarrow> message list \<times> bot" where
  "check_price_alerts user current_price st =
     (case map_of (tracking_users st) user of
        None \<Rightarrow> ([], st)
      | Some ud \<Rightarrow>
          (let (msgs, as') = check_alerts current_price (alerts ud) in
           (msgs, st\<lparr>tracking_users :=
                       AList.update user (ud\<lparr>alerts := as'\<rparr>) (tracking_users st)\<rparr>)))"

text \<open>
  \<open>start_price_tracking\<close>, with its optional parameter \<open>initial_price\<close>:
  \<open>initial_price or int(current_price)\<close> takes \<open>initial_price\<close> unless it is \<open>None\<close> or
  zero.
\<close>

definition start_price_tracking ::
  "price option \<Rightarrow> user_id \<Rightarrow> int option \<Rightarrow> bot \<Rightarrow> bool \<times> bot" where
  "start_price_tracking fetched user initial_price st =
     (if \<not> tracked st user then
        (case fetched of
           None \<Rightarrow> (False, st)
         | Some current_price \<Rightarrow>
             (True,
              st\<lparr>tracking_users :=
                   AList.update user
                     \<lparr>tracking = True,
                      last_notification_price =
                        (case initial_price of
                           None \<Rightarrow> python_int current_price
                         | Some i \<Rightarrow> if i = 0 then python_int current_price else i),
                      alerts = []\<rparr>
                     (tracking_users st)\<rparr>))
      else (False, st))"

definition stop_price_tracking :: "user_id \<Rightarrow> bot \<Rightarrow> bool \<times> bot" where
  "stop_price_tracking user st =
     (if tracked st user
      then (True, st\<lparr>tracking_users := AList.delete user (tracking_users st)\<rparr>)
      else (False, st))"

section \<open>The poll loop\<close>

text \<open>
  One pass of \<open>continuous_price_check\<close>. The transport is a parameter: \<open>send user msg\<close>
  is \<open>True\<close> when \<open>bot.send_message\<close> returns and \<open>False\<close> when it raises. Each call of
  \<open>send_message\<close> is recorded with its outcome.
\<close>

type_synonym transport = "user_id \<Rightarrow> message \<Rightarrow> bool"
type_synonym delivery = "user_id \<times> message \<times> bool"

text \<open>
  The body of the loop over the users (lines 195 to 215). When \<open>send_message\<close> raises
  in the increase check, the assignment to \<open>last_notification_price\<close> is skipped.
\<close>

definition check_user :: "transport \<Rightarrow> price \<Rightarrow> user_id \<Rightarrow> bot \<times> delivery list \<Rightarrow> bot \<times> delivery list" where
  "check_user send current_price user acc =
     (let (st, out) = acc in
      case map_of (tracking_users st) user of
        None \<Rightarrow> (st, out)
      | Some ud \<Rightarrow>
          if tracking ud then
            (let (st1, out1) =
               (if python_int current_price > last_notification_price ud then
                  (if send user (IncreaseAlert current_price)
                   then (st\<lparr>tracking_users :=
                              AList.update user
                                (ud\<lparr>last_notification_price := python_int current_price\<rparr>)
                                (tracking_users st)\<rparr>,
                         out @ [(user, IncreaseAlert current_price, True)])
                   else (st, out @ [(user, IncreaseAlert current_price, False)]))
                else (st, out));
                 (msgs, st2) = check_price_alerts user current_price st1
             in (st2, out1 @ map (\<lambda>m. (user, m, send user m)) msgs))
          else (st, out))"

text \<open>
  One iteration of the \<open>while True\<close> loop (without the sleep): nothing happens when the
  fetch fails; otherwise the history is updated and every user of the snapshot
  \<open>list(self.tracking_users.items())\<close> is checked.
\<close>

definition poll_tick :: "transport \<Rightarrow> price option \<Rightarrow> bot \<Rightarrow> bot \<times> delivery list" where
  "poll_tick send fetched st =
     (case fetched of
        None \<Rightarrow> (st, [])
      | Some current_price \<Rightarrow>
          (let st1 = st\<lparr>price_history := update_history current_price (price_history st)\<rparr>
           in fold (check_user send current_price) (map fst (tracking_users st1)) (st1, [])))"

text \<open>Successive iterations, one per result of the fetch; the deliveries are dropped.\<close>

definition poll_ticks :: "transport \<Rightarrow> price option list \<Rightarrow> bot \<Rightarrow> bot" where
  "poll_ticks send fetches st = fold (\<lambda>f s. fst (poll_tick send f s)) fetches st"

section \<open>Transports and states used in the examples\<close>

definition send_ok :: transport where
  "send_ok = (\<lambda>user msg. True)"

definition send_fails :: transport where
  "send_fails = (\<lambda>user msg. False)"

definition example_user :: user_data where
  "example_user =
     \<lparr>tracking = True, last_notification_price = 10,
      alerts = [\<lparr>target = 50, triggered = False\<rparr>,
                \<lparr>target = 45, triggered = True\<rparr>,
                \<lparr>target = 40, triggered = False\<rparr>]\<rparr>"

definition example_bot :: bot where
  "example_bot = \<lparr>tracking_users = [(1, example_user)], price_history = []\<rparr>"

text \<open>Whether a recorded call of \<open>send_message\<close> carried the increase notification.\<close>

fun is_increase :: "delivery \<Rightarrow> bool" where
  "is_increase (user, IncreaseAlert p, delivered) = True"
| "is_increase (user, TargetReached p t, delivered) = False"

section \<open>The rolling price history\<close>

lemma update_history_drop:
  "update_history x (drop (length xs - 24) xs) = drop (length (xs @ [x]) - 24) (xs @ [x])"
proof (cases "length xs < 24")
  case True
  then show ?thesis by (simp add: update_history_def)
next
  case False
  define k where "k = length xs - 24"
  from False have k: "length xs = k + 24" by (simp add: k_def)
  then have ne: "drop k xs \<noteq> []" by simp
  have "update_history x (drop k xs) = tl (drop k xs @ [x])"
    using k by (simp add: update_history_def)
  also have "\<dots> = tl (drop k xs) @ [x]" using ne by simp
  also have "\<dots> = drop (Suc k) xs @ [x]" by (simp add: drop_Suc tl_drop)
  also have "\<dots> = drop (length (xs @ [x]) - 24) (xs @ [x])" using k by simp
  finally show ?thesis by (simp add: k_def)
qed

lemma check_alerts_length: "length (snd (check_alerts p as)) = length as"
  by (induction as) (auto split: prod.splits)

lemma check_price_alerts_history:
  "price_history (snd (check_price_alerts u p st)) = price_history st"
  by (simp add: check_price_alerts_def split: option.splits prod.splits)

lemma check_price_alerts_history_pair:
  "check_price_alerts u p st = (ms, st') \<Longrightarrow> price_history st' = price_history st"
  using check_price_alerts_history [of u p st] by simp

lemma check_user_history:
  "price_history (fst (check_user send p u acc)) = price_history (fst acc)"
proof (cases acc)
  case (Pair st out)
  show ?thesis
  proof (cases "map_of (tracking_users st) u")
    case None
    with Pair show ?thesis by (simp add: check_user_def)
  next
    case (Some ud)
    with Pair show ?thesis
      by (auto simp: check_user_def Let_def split: prod.splits dest!: check_price_alerts_history_pair)
  qed
qed

lemma fold_check_user_history:
  "price_history (fst (fold (check_user send p) us acc)) = price_history (fst acc)"
  by (induction us arbitrary: acc) (simp_all add: check_user_history)

lemma poll_tick_history:
  "price_history (fst (poll_tick send (Some x) st)) = update_history x (price_history st)"
  by (simp add: poll_tick_def Let_def fold_check_user_history)

lemma poll_ticks_snoc:
  "poll_ticks send (fs @ [f]) st = fst (poll_tick send f (poll_ticks send fs st))"
  by (simp add: poll_ticks_def)

lemma poll_ticks_history:
  "price_history (poll_ticks send (map Some xs) (st\<lparr>price_history := []\<rparr>)) = drop (length xs - 24) xs"
proof (induction xs rule: rev_induct)
  case Nil
  show ?case by (simp add: poll_ticks_def)
next
  case (snoc x xs)
  show ?case
    using update_history_drop [of x xs]
    by (simp add: poll_ticks_snoc poll_tick_history snoc.IH)
qed

text \<open>
  Claim C2. Starting from the empty history of \<open>__init__\<close>, after any sequence \<open>xs\<close> of
  iterations of the poll loop whose fetch succeeded (whatever the transport does and
  whoever is registered), the history is \<open>xs\<close> without its first \<open>length xs - 24\<close>
  elements: the most recent \<open>min (length xs) 24\<close> prices in the order of insertion, the
  oldest dropped first, and never more than 24 of them. As \<open>xs\<close> is arbitrary, this
  holds after each append.
\<close>

theorem price_history_last_24:
  "price_history (poll_ticks send (map Some xs) (st\<lparr>price_history := []\<rparr>))
     = drop (length xs - 24) xs
   \<and> length (price_history (poll_ticks send (map Some xs) (st\<lparr>price_history := []\<rparr>)))
     = min (length xs) 24
   \<and> length (price_history (poll_ticks send (map Some xs) (st\<lparr>price_history := []\<rparr>)))
     \<le> 24"
  by (simp add: poll_ticks_history min_def)

theorem price_history_last_24_witness:
  "price_history
     (poll_ticks send_fails
        (map Some [1, 2, 3, 4, 5, 6, 7, 8, 9, 10, 11, 12, 13, 14, 15, 16, 17, 18, 19, 20,
                   21, 22, 23, 24, 25, 26])
        (example_bot\<lparr>price_history := []\<rparr>))
     = [3, 4, 5, 6, 7, 8, 9, 10, 11, 12, 13, 14, 15, 16, 17, 18, 19, 20,
        21, 22, 23, 24, 25, 26]"
  using price_history_last_24
    [of send_fails
        "[1, 2, 3, 4, 5, 6, 7, 8, 9, 10, 11, 12, 13, 14, 15, 16, 17, 18, 19, 20,
          21, 22, 23, 24, 25, 26]" example_bot]
  by simp

section \<open>Evaluating the target alerts\<close>

lemma check_alerts_msgs:
  "fst (check_alerts p as) =
     map (\<lambda>a. TargetReached p (target a)) (filter (\<lambda>a. \<not> triggered a \<and> target a \<le> p) as)"
  by (induction as) (auto split: prod.splits)

lemma check_alerts_marks:
  "snd (check_alerts p as) =
     map (\<lambda>a. if \<not> triggered a \<and> target a \<le> p then a\<lparr>triggered := True\<rparr> else a) as"
  by (induction as) (auto split: prod.splits)

lemma check_alerts_eq:
  "check_alerts p as =
     (map (\<lambda>a. TargetReached p (target a)) (filter (\<lambda>a. \<not> triggered a \<and> target a \<le> p) as),
      map (\<lambda>a. if \<not> triggered a \<and> target a \<le> p then a\<lparr>triggered := True\<rparr> else a) as)"
  using check_alerts_msgs [of p as] check_alerts_marks [of p as]
  by (simp add: prod_eq_iff)

lemma check_price_alerts_Some:
  "map_of (tracking_users st) u = Some ud \<Longrightarrow>
   check_price_alerts u p st =
     (map (\<lambda>a. TargetReached p (target a))
        (filter (\<lambda>a. \<not> triggered a \<and> target a \<le> p) (alerts ud)),
      st\<lparr>tracking_users :=
           AList.update u
             (ud\<lparr>alerts := map (\<lambda>a. if \<not> triggered a \<and> target a \<le> p
                                       then a\<lparr>triggered := True\<rparr> else a) (alerts ud)\<rparr>)
             (tracking_users st)\<rparr>)"
  by (simp add: check_price_alerts_def check_alerts_eq)

lemma check_price_alerts_None:
  "map_of (tracking_users st) u = None \<Longrightarrow> check_price_alerts u p st = ([], st)"
  by (simp add: check_price_alerts_def)

lemma marked_none_fire:
  "filter (\<lambda>a. \<not> triggered a \<and> target a \<le> p)
     (map (\<lambda>a. if \<not> triggered a \<and> target a \<le> p then a\<lparr>triggered := True\<rparr> else a) as) = []"
  by (induction as) auto

lemma marked_twice:
  "map (\<lambda>a. if \<not> triggered a \<and> target a \<le> p then a\<lparr>triggered := True\<rparr> else a)
     (map (\<lambda>a. if \<not> triggered a \<and> target a \<le> p then a\<lparr>triggered := True\<rparr> else a) as)
   = map (\<lambda>a. if \<not> triggered a \<and> target a \<le> p then a\<lparr>triggered := True\<rparr> else a) as"
  by (induction as) auto

lemma marked_targets:
  "map target (map (\<lambda>a. if \<not> triggered a \<and> target a \<le> p then a\<lparr>triggered := True\<rparr> else a) as)
   = map target as"
  by (induction as) auto

lemma marked_monotone:
  "list_all2 (\<lambda>a a'. triggered a \<longrightarrow> triggered a') as
     (map (\<lambda>a. if \<not> triggered a \<and> target a \<le> p then a\<lparr>triggered := True\<rparr> else a) as)"
  by (induction as) auto

text \<open>
  Claim C4. For a user with record \<open>ud\<close> and any current price \<open>p\<close>,
  \<open>check_price_alerts\<close> returns one target-reached message for each alert that is not
  yet triggered and whose target is at most \<open>p\<close>, in the order of the alert list, and
  marks exactly those alerts triggered. An alert that is already triggered yields no
  message; calling the method again at the same price returns no message and changes
  nothing; and no alert goes from triggered back to not triggered.
\<close>

theorem check_price_alerts_once:
  assumes "map_of (tracking_users st) u = Some ud"
  shows "fst (check_price_alerts u p st) =
           map (\<lambda>a. TargetReached p (target a))
             (filter (\<lambda>a. \<not> triggered a \<and> target a \<le> p) (alerts ud))
       \<and> map_of (tracking_users (snd (check_price_alerts u p st))) u =
           Some (ud\<lparr>alerts := map (\<lambda>a. if \<not> triggered a \<and> target a \<le> p
                                         then a\<lparr>triggered := True\<rparr> else a) (alerts ud)\<rparr>)
       \<and> check_price_alerts u p (snd (check_price_alerts u p st)) =
           ([], snd (check_price_alerts u p st))
       \<and> list_all2 (\<lambda>a a'. triggered a \<longrightarrow> triggered a') (alerts ud)
           (map (\<lambda>a. if \<not> triggered a \<and> target a \<le> p
                      then a\<lparr>triggered := True\<rparr> else a) (alerts ud))"
proof -
  let ?mark = "\<lambda>a. if \<not> triggered a \<and> target a \<le> p then a\<lparr>triggered := True\<rparr> else a"
  let ?ud' = "ud\<lparr>alerts := map ?mark (alerts ud)\<rparr>"
  let ?st' = "st\<lparr>tracking_users := AList.update u ?ud' (tracking_users st)\<rparr>"
  have first: "check_price_alerts u p st =
      (map (\<lambda>a. TargetReached p (target a))
         (filter (\<lambda>a. \<not> triggered a \<and> target a \<le> p) (alerts ud)), ?st')"
    using assms by (rule check_price_alerts_Some)
  have look: "map_of (tracking_users ?st') u = Some ?ud'"
    by (simp add: update_conv')
  have again: "check_price_alerts u p ?st' = ([], ?st')"
    using check_price_alerts_Some [OF look, of p]
    by (simp add: marked_none_fire marked_twice del: map_map)
  show ?thesis
    using first look again marked_monotone [of "alerts ud" p] by simp
qed

theorem check_price_alerts_once_witness:
  "map_of (tracking_users example_bot) 1 = Some example_user
   \<and> fst (check_price_alerts 1 49 example_bot) = [TargetReached 49 40]
   \<and> fst (check_price_alerts 1 50 example_bot) = [TargetReached 50 50, TargetReached 50 40]
   \<and> map_of (tracking_users (snd (check_price_alerts 1 50 example_bot))) 1 =
        Some (example_user\<lparr>alerts := [\<lparr>target = 50, triggered = True\<rparr>,
                                       \<lparr>target = 45, triggered = True\<rparr>,
                                       \<lparr>target = 40, triggered = True\<rparr>]\<rparr>)
   \<and> check_price_alerts 1 50 (snd (check_price_alerts 1 50 example_bot)) =
        ([], snd (check_price_alerts 1 50 example_bot))"
proof -
  have h: "map_of (tracking_users example_bot) 1 = Some example_user"
    by (simp add: example_bot_def)
  show ?thesis
    using h check_price_alerts_once [OF h, of 49] check_price_alerts_once [OF h, of 50]
    by (simp add: example_user_def)
qed

text \<open>
  Claim C9. For a user without a record, \<open>check_price_alerts\<close> returns the empty list
  of messages and the bot is unchanged: no record is created and nothing is raised.
\<close>

theorem check_price_alerts_unknown:
  "\<not> tracked st u \<Longrightarrow> check_price_alerts u p st = ([], st)"
  by (simp add: tracked_def check_price_alerts_None)

theorem check_price_alerts_unknown_witness:
  "\<not> tracked example_bot 2 \<and> check_price_alerts 2 50 example_bot = ([], example_bot)"
proof -
  have h: "\<not> tracked example_bot 2"
    by (simp add: tracked_def example_bot_def)
  show ?thesis
    using h check_price_alerts_unknown [OF h, of 50] by simp
qed

text \<open>
  Claim C10. \<open>check_price_alerts\<close> leaves the price history, the keys of the registry
  and their order, and the record of every other user as they are. For the user itself
  the record stays absent if it was absent; otherwise \<open>tracking\<close> and
  \<open>last_notification_price\<close> are unchanged, the alert list keeps its length, its order
  and its targets, and a \<open>triggered\<close> flag can only go from false to true.
\<close>

theorem check_price_alerts_frame:
  "price_history (snd (check_price_alerts u p st)) = price_history st
   \<and> map fst (tracking_users (snd (check_price_alerts u p st))) = map fst (tracking_users st)
   \<and> (\<forall>v. v \<noteq> u \<longrightarrow>
         map_of (tracking_users (snd (check_price_alerts u p st))) v
           = map_of (tracking_users st) v)
   \<and> (map_of (tracking_users st) u = None \<longrightarrow>
         map_of (tracking_users (snd (check_price_alerts u p st))) u = None)
   \<and> (\<forall>ud. map_of (tracking_users st) u = Some ud \<longrightarrow>
         (\<exists>ud'. map_of (tracking_users (snd (check_price_alerts u p st))) u = Some ud'
            \<and> tracking ud' = tracking ud
            \<and> last_notification_price ud' = last_notification_price ud
            \<and> length (alerts ud') = length (alerts ud)
            \<and> map target (alerts ud') = map target (alerts ud)
            \<and> list_all2 (\<lambda>a a'. triggered a \<longrightarrow> triggered a') (alerts ud) (alerts ud')))"
proof (cases "map_of (tracking_users st) u")
  case None
  then show ?thesis by (simp add: check_price_alerts_None)
next
  case (Some ud)
  have "u \<in> fst ` set (tracking_users st)"
    using Some by (metis map_of_eq_None_iff option.distinct(1))
  then have keys: "map fst (AList.update u x (tracking_users st)) = map fst (tracking_users st)" for x
    by (simp add: update_keys)
  show ?thesis
    using Some keys marked_monotone [of "alerts ud" p]
    by (simp add: check_price_alerts_Some update_conv' marked_targets)
qed

theorem check_price_alerts_frame_witness:
  "map_of (tracking_users example_bot) 1 = Some example_user
   \<and> (\<exists>ud'. map_of (tracking_users (snd (check_price_alerts 1 50 example_bot))) 1 = Some ud'
          \<and> tracking ud' = tracking example_user
          \<and> last_notification_price ud' = last_notification_price example_user
          \<and> length (alerts ud') = length (alerts example_user)
          \<and> map target (alerts ud') = map target (alerts example_user)
          \<and> list_all2 (\<lambda>a a'. triggered a \<longrightarrow> triggered a') (alerts example_user) (alerts ud'))
   \<and> map_of (tracking_users example_bot) 2 = None
   \<and> map_of (tracking_users (snd (check_price_alerts 2 50 example_bot))) 2 = None
   \<and> map_of (tracking_users (snd (check_price_alerts 2 50 example_bot))) 1
        = map_of (tracking_users example_bot) 1"
proof -
  have h1: "map_of (tracking_users example_bot) 1 = Some example_user"
    by (simp add: example_bot_def)
  have h2: "map_of (tracking_users example_bot) 2 = None"
    by (simp add: example_bot_def)
  show ?thesis
    using h1 h2 check_price_alerts_frame [of 1 50 example_bot]
      check_price_alerts_frame [of 2 50 example_bot]
    by simp
qed

section \<open>Stopping\<close>

text \<open>
  Claim C8. When the user has a record, \<open>stop_price_tracking\<close> returns \<open>True\<close> and
  deletes the whole record, alerts included, leaving the other users and the history as
  they are; when the user has no record it returns \<open>False\<close> and the bot is unchanged.
\<close>

theorem stop_price_tracking_spec:
  "(tracked st u \<longrightarrow>
      fst (stop_price_tracking u st)
      \<and> map_of (tracking_users (snd (stop_price_tracking u st))) u = None
      \<and> \<not> tracked (snd (stop_price_tracking u st)) u
      \<and> (\<forall>v. v \<noteq> u \<longrightarrow>
            map_of (tracking_users (snd (stop_price_tracking u st))) v
              = map_of (tracking_users st) v)
      \<and> price_history (snd (stop_price_tracking u st)) = price_history st)
   \<and> (\<not> tracked st u \<longrightarrow> stop_price_tracking u st = (False, st))"
  by (simp add: stop_price_tracking_def tracked_def delete_conv')

theorem stop_price_tracking_spec_witness:
  "tracked example_bot 1
   \<and> fst (stop_price_tracking 1 example_bot)
   \<and> map_of (tracking_users (snd (stop_price_tracking 1 example_bot))) 1 = None
   \<and> \<not> tracked example_bot 2
   \<and> stop_price_tracking 2 example_bot = (False, example_bot)"
proof -
  have h1: "tracked example_bot 1"
    by (simp add: tracked_def example_bot_def)
  have h2: "\<not> tracked example_bot 2"
    by (simp add: tracked_def example_bot_def)
  show ?thesis
    using h1 h2 stop_price_tracking_spec [of example_bot 1]
      stop_price_tracking_spec [of example_bot 2]
    by simp
qed

section \<open>The increase notification of the poll loop\<close>

lemma python_int_nonneg: "0 \<le> x \<Longrightarrow> python_int x = \<lfloor>x\<rfloor>"
  by (simp add: python_int_def)

lemma floor_minus_half: "\<lfloor>- (1 / 2) :: rat\<rfloor> = - 1"
  by (simp add: floor_eq_iff)

lemma ceiling_minus_half: "\<lceil>- (1 / 2) :: rat\<rceil> = 0"
  by (simp add: ceiling_eq_iff)

lemma floor_23_2: "\<lfloor>23 / 2 :: rat\<rfloor> = 11"
  by (simp add: floor_eq_iff)

lemma floor_59_5: "\<lfloor>59 / 5 :: rat\<rfloor> = 11"
  by (simp add: floor_eq_iff)

lemma no_increase_among_targets:
  "filter is_increase (map (\<lambda>m. (u, m, send u m)) (map (\<lambda>a. TargetReached x (target a)) as)) = []"
  by (induction as) auto

lemma check_user_Some:
  assumes "map_of (tracking_users st) u = Some ud" and "tracking ud"
  shows "check_user send x u (st, out) =
     (st\<lparr>tracking_users :=
          AList.update u
            (ud\<lparr>last_notification_price :=
                    (if python_int x > last_notification_price ud \<and> send u (IncreaseAlert x)
                     then python_int x else last_notification_price ud),
                 alerts := map (\<lambda>a. if \<not> triggered a \<and> target a \<le> x
                                      then a\<lparr>triggered := True\<rparr> else a) (alerts ud)\<rparr>)
            (tracking_users st)\<rparr>,
      out @ (if python_int x > last_notification_price ud
             then [(u, IncreaseAlert x, send u (IncreaseAlert x))] else [])
          @ map (\<lambda>m. (u, m, send u m))
              (map (\<lambda>a. TargetReached x (target a))
                 (filter (\<lambda>a. \<not> triggered a \<and> target a \<le> x) (alerts ud))))"
proof (cases "python_int x > last_notification_price ud \<and> send u (IncreaseAlert x)")
  case True
  let ?ud1 = "ud\<lparr>last_notification_price := python_int x\<rparr>"
  let ?st1 = "st\<lparr>tracking_users := AList.update u ?ud1 (tracking_users st)\<rparr>"
  have look: "map_of (tracking_users ?st1) u = Some ?ud1"
    by (simp add: update_conv')
  show ?thesis
    using assms True check_price_alerts_Some [OF look, of x]
    by (simp add: check_user_def)
next
  case False
  show ?thesis
    using assms False check_price_alerts_Some [OF assms(1), of x]
    by (auto simp: check_user_def)
qed

text \<open>
  Claim C3, as the code has it. For a user with a record \<open>ud\<close> whose \<open>tracking\<close> flag
  is set, and any tick price \<open>x\<close>, the loop body calls \<open>send_message\<close> with the increase
  notification exactly once if \<open>int(x)\<close> exceeds \<open>last_notification_price\<close>, and not at
  all otherwise. Afterwards \<open>last_notification_price\<close> is \<open>int(x)\<close> if the notification
  was due and the call returned; it keeps its value if the call raised or no
  notification was due. \<open>int\<close> truncates towards zero, which is the floor for every
  price that is not negative.
\<close>

theorem check_user_increase:
  assumes "map_of (tracking_users st) u = Some ud" and "tracking ud"
  shows "filter is_increase (snd (check_user send x u (st, []))) =
           (if python_int x > last_notification_price ud
            then [(u, IncreaseAlert x, send u (IncreaseAlert x))] else [])
       \<and> map_option last_notification_price
           (map_of (tracking_users (fst (check_user send x u (st, [])))) u) =
           Some (if python_int x > last_notification_price ud \<and> send u (IncreaseAlert x)
                 then python_int x else last_notification_price ud)
       \<and> (0 \<le> x \<longrightarrow> python_int x = \<lfloor>x\<rfloor>)"
  using check_user_Some [OF assms, of send x "[]"]
  by (simp add: no_increase_among_targets update_conv' python_int_nonneg)

text \<open>
  The claim as stated fails in two places. With \<open>p = 10\<close> and \<open>x = 11.5\<close>, when
  \<open>send_message\<close> raises, the notification has been handed to the transport but
  \<open>last_notification_price\<close> stays 10. With \<open>p = -1\<close> and \<open>x = -0.5\<close> the floor of \<open>x\<close>
  does not exceed \<open>p\<close>, yet \<open>int(x) = 0\<close> does and the notification is sent.
\<close>

theorem check_user_increase_counterexample:
  "\<lfloor>23 / 2 :: rat\<rfloor> > 10
   \<and> map_of (tracking_users example_bot) 1 = Some example_user
   \<and> tracking example_user \<and> last_notification_price example_user = 10
   \<and> snd (check_user send_fails (23 / 2) 1 (example_bot, [])) = [(1, IncreaseAlert (23 / 2), False)]
   \<and> map_option last_notification_price
       (map_of (tracking_users (fst (check_user send_fails (23 / 2) 1 (example_bot, [])))) 1)
       = Some 10
   \<and> \<not> \<lfloor>- 1 / 2 :: rat\<rfloor> > - 1
   \<and> snd (check_user send_ok (- 1 / 2) 1
            (example_bot\<lparr>tracking_users := [(1, example_user\<lparr>last_notification_price := - 1\<rparr>)]\<rparr>, []))
       = [(1, IncreaseAlert (- 1 / 2), True)]"
  by (simp add: check_user_def check_price_alerts_def example_bot_def example_user_def
        send_fails_def send_ok_def python_int_def floor_minus_half ceiling_minus_half)

text \<open>
  The example of the claim, with a transport that delivers: from 10, a tick at 11.5
  sends one increase notification and stores 11; the next tick at 11.8 sends none.
\<close>

theorem check_user_increase_witness:
  "map_of (tracking_users example_bot) 1 = Some example_user \<and> tracking example_user
   \<and> last_notification_price example_user = 10
   \<and> filter is_increase (snd (check_user send_ok (23 / 2) 1 (example_bot, [])))
       = [(1, IncreaseAlert (23 / 2), True)]
   \<and> map_of (tracking_users (fst (check_user send_ok (23 / 2) 1 (example_bot, [])))) 1
       = Some (example_user\<lparr>last_notification_price := 11\<rparr>)
   \<and> filter is_increase
       (snd (check_user send_ok (59 / 5) 1
               (fst (check_user send_ok (23 / 2) 1 (example_bot, [])), [])))
       = []"
proof -
  have h1: "map_of (tracking_users example_bot) 1 = Some example_user"
    by (simp add: example_bot_def)
  have h2: "tracking example_user"
    by (simp add: example_user_def)
  have h3: "map_of (tracking_users (fst (check_user send_ok (23 / 2) 1 (example_bot, [])))) 1
              = Some (example_user\<lparr>last_notification_price := 11\<rparr>)"
    by (simp add: check_user_def check_price_alerts_def example_bot_def example_user_def
          send_ok_def python_int_def floor_23_2)
  have h4: "tracking (example_user\<lparr>last_notification_price := 11\<rparr>)"
    by (simp add: example_user_def)
  show ?thesis
    using h1 h2 h3 check_user_increase [OF h1 h2, of send_ok "23 / 2"]
      check_user_increase [OF h3 h4, of send_ok "59 / 5"]
    by (auto simp: example_user_def send_ok_def python_int_def floor_23_2 floor_59_5)
qed

section \<open>Starting\<close>




section \<open>Trend\<close>




section \<open>Statistics\<close>





section \<open>Setting an alert\<close>

text \<open>
  When the fetch succeeds, \<open>set_price_alert\<close> for a user without a record stores the
  record that \<open>start_price_tracking\<close> stores and appends the new alert to it.
\<close>

lemma set_price_alert_fetched:
  "\<not> tracked st u \<Longrightarrow>
   set_price_alert (Some x) u t st =
     Inr (append_alert u t (snd (start_price_tracking (Some x) u None st)))"
  by (simp add: set_price_alert_def start_price_tracking_def)

lemma append_alert_Some:
  "map_of (tracking_users st) u = Some ud \<Longrightarrow>
   map_of (tracking_users (append_alert u t st)) u
     = Some (ud\<lparr>alerts := alerts ud @ [\<lparr>target = t, triggered = False\<rparr>]\<rparr>)"
  by (simp add: append_alert_def new_alert_def update_conv')

text \<open>
  Claim C1. For a user without a record and a failed fetch, \<open>start_price_tracking\<close>
  returns \<open>False\<close> and leaves the bot as it is, whereas \<open>set_price_alert\<close> does not
  return: \<open>int(None)\<close> raises \<open>TypeError\<close>.
\<close>

theorem set_price_alert_fetch_failure:
  "\<not> tracked init_bot 1
   \<and> start_price_tracking None 1 None init_bot = (False, init_bot)
   \<and> set_price_alert None 1 50 init_bot = Inl TypeError"
  by (simp add: set_price_alert_def start_price_tracking_def tracked_def init_bot_def)

end
